theory Spec2Isabelle
  imports Complex_Main "HOL-Library.Word"
begin

section \<open>Adaptive Smart Replay: metrics and controller (adaptive_sr.c)\<close>

text \<open>
  A shallow embedding of \<^verbatim>\<open>src/openaurora/backend/storage/adaptive_sr.c\<close> and of the
  structures of \<^verbatim>\<open>src/openaurora/include/storage/adaptive_sr.h\<close>.

  Conventions of the model.
  \<^item> A C \<^verbatim>\<open>double\<close> is a \<^typ>\<open>real\<close>, and there is no NaN and no infinity. The one place
    where the code can divide by zero with a finite configuration (\<^verbatim>\<open>compute_pressure\<close>) is
    written out. Arithmetic on doubles is exact, except in the step limit of the tick (lines
    320-327): there the subtraction and the additions round to the nearest binary64 value,
    ties to even, as IEEE 754 arithmetic does, because the bound of the step limit is a
    matter of that one rounding.
  \<^item> A \<^verbatim>\<open>uint64_t\<close> (and \<^verbatim>\<open>size_t\<close>) is a \<^typ>\<open>64 word\<close>: addition and subtraction wrap.
  \<^item> A C \<^verbatim>\<open>int\<close> and a \<^verbatim>\<open>time_t\<close> are an \<^typ>\<open>int\<close>; signed overflow is undefined in C
    and is outside the model.
  \<^item> The two file-level variables \<^verbatim>\<open>asr_config\<close> and \<^verbatim>\<open>asr_metrics\<close>, the shutdown flag and
    the controller's thread id are the fields of one record, passed through every operation.
    Locks and atomics are not modelled: every operation is one atomic step.
  \<^item> \<^verbatim>\<open>ereport\<close> only writes to the server log and is left out.
\<close>

subsection \<open>Data\<close>

text \<open>\<^verbatim>\<open>ASRConfig\<close>, adaptive_sr.h lines 26-58.\<close>

record ASRConfig =
  QSTAR :: real
  RSTAR :: real
  WSTAR :: real
  BMIN :: int
  BMAX :: int
  WQ :: real
  WM :: real
  WW :: real
  HYST :: int
  MAX_STEP :: real
  enable_adaptive_sr :: bool
  verbose_metrics :: bool

text \<open>\<^verbatim>\<open>ASRMetricsInternal\<close>, adaptive_sr.c lines 55-76 (the mutex is not a value).\<close>

record ASRMetricsInternal =
  replay_tasks_count :: "64 word"
  hot_misses :: "64 word"
  wal_bytes_received :: "64 word"
  queue_ewma :: real
  miss_rate_ewma :: real
  wal_bps_ewma :: real
  current_budget :: int
  current_aggressiveness :: real
  last_total_misses :: "64 word"
  last_total_tasks :: "64 word"
  last_wal_bytes :: "64 word"
  last_measurement :: int

text \<open>
  The file-level state: \<^verbatim>\<open>asr_config\<close>, \<^verbatim>\<open>asr_metrics\<close>, \<^verbatim>\<open>asr_shutdown_requested\<close> and
  \<^verbatim>\<open>asr_controller_tid\<close> (0 when no controller thread exists).
\<close>

record asr_globals =
  asr_config :: ASRConfig
  asr_metrics :: ASRMetricsInternal
  asr_shutdown_requested :: bool
  asr_controller_tid :: nat

text \<open>\<^verbatim>\<open>asr_default_config\<close>, lines 32-45.\<close>

definition asr_default_config :: ASRConfig where
  "asr_default_config =
     \<lparr> QSTAR = 100, RSTAR = 5 / 100, WSTAR = 10 * 1024 * 1024,
       BMIN = 10, BMAX = 2000,
       WQ = 3 / 10, WM = 6 / 10, WW = 1 / 10,
       HYST = 20, MAX_STEP = 2 / 10,
       enable_adaptive_sr = False, verbose_metrics = False \<rparr>"

text \<open>
  The state a process starts with: \<^verbatim>\<open>asr_config\<close> has no initialiser, so C zeroes it;
  \<^verbatim>\<open>asr_metrics\<close> has the initialiser of lines 78-92, with \<^verbatim>\<open>current_budget = 100\<close>.
\<close>

definition asr_config_static :: ASRConfig where
  "asr_config_static =
     \<lparr> QSTAR = 0, RSTAR = 0, WSTAR = 0, BMIN = 0, BMAX = 0, WQ = 0, WM = 0, WW = 0,
       HYST = 0, MAX_STEP = 0, enable_adaptive_sr = False, verbose_metrics = False \<rparr>"

definition asr_metrics_static :: ASRMetricsInternal where
  "asr_metrics_static =
     \<lparr> replay_tasks_count = 0, hot_misses = 0, wal_bytes_received = 0,
       queue_ewma = 0, miss_rate_ewma = 0, wal_bps_ewma = 0,
       current_budget = 100, current_aggressiveness = 0,
       last_total_misses = 0, last_total_tasks = 0, last_wal_bytes = 0,
       last_measurement = 0 \<rparr>"

definition asr_globals_static :: asr_globals where
  "asr_globals_static =
     \<lparr> asr_config = asr_config_static, asr_metrics = asr_metrics_static,
       asr_shutdown_requested = False, asr_controller_tid = 0 \<rparr>"

subsection \<open>Rounding to binary64\<close>

text \<open>
  The binary exponent of a positive real: the \<open>e\<close> with \<open>2 ^ e \<le> x < 2 ^ (e + 1)\<close>, found by
  halving and doubling.
\<close>

function binary_exponent :: "real \<Rightarrow> int" where
  "binary_exponent x =
     (if x \<le> 0 then 0
      else if 2 \<le> x then binary_exponent (x / 2) + 1
      else if x < 1 then binary_exponent (2 * x) - 1
      else 0)"
  by pat_completeness auto
termination
proof (relation "measure (\<lambda>x. if x \<le> 0 \<or> (1 \<le> x \<and> x < 2) then 0
                                 else nat \<lfloor>\<bar>log 2 x\<bar>\<rfloor> + 1)")
  show "wf (measure (\<lambda>x. if x \<le> 0 \<or> (1 \<le> x \<and> x < 2) then 0
                            else nat \<lfloor>\<bar>log 2 x\<bar>\<rfloor> + 1))"
    by simp
next
  fix x :: real
  assume a: "\<not> x \<le> 0" "2 \<le> x"
  have l: "1 \<le> log 2 x"
    using a by (simp add: le_log_iff)
  have h: "log 2 (x / 2) = log 2 x - 1"
    using a by (simp add: log_divide)
  have "\<lfloor>\<bar>log 2 x - 1\<bar>\<rfloor> = \<lfloor>\<bar>log 2 x\<bar>\<rfloor> - 1"
    using l by (simp add: abs_if)
  moreover have "0 \<le> \<lfloor>\<bar>log 2 x\<bar>\<rfloor> - 1"
    using l by (simp add: le_floor_iff)
  ultimately show "(x / 2, x) \<in> measure (\<lambda>x. if x \<le> 0 \<or> (1 \<le> x \<and> x < 2) then 0
                                             else nat \<lfloor>\<bar>log 2 x\<bar>\<rfloor> + 1)"
    using a h by (auto simp: nat_less_iff)
next
  fix x :: real
  assume a: "\<not> x \<le> 0" "\<not> 2 \<le> x" "x < 1"
  have h: "log 2 (2 * x) = log 2 x + 1"
    using a by (simp add: log_mult)
  show "(2 * x, x) \<in> measure (\<lambda>x. if x \<le> 0 \<or> (1 \<le> x \<and> x < 2) then 0
                                   else nat \<lfloor>\<bar>log 2 x\<bar>\<rfloor> + 1)"
  proof (cases "1 \<le> 2 * x")
    case True
    then show ?thesis
      using a by simp
  next
    case False
    then have "log 2 (2 * x) < 0"
      using a by simp
    then have l1: "log 2 x < - 1"
      using h by simp
    have "\<lfloor>\<bar>log 2 x + 1\<bar>\<rfloor> = \<lfloor>\<bar>log 2 x\<bar>\<rfloor> - 1"
      using l1 by (simp add: abs_if)
    moreover have "0 \<le> \<lfloor>\<bar>log 2 x\<bar>\<rfloor> - 1"
      using l1 by (simp add: le_floor_iff)
    ultimately show ?thesis
      using a False h by (auto simp: nat_less_iff)
  qed
qed

declare binary_exponent.simps [simp del]

text \<open>Rounding to the nearest integer, a tie going to the even one.\<close>

definition round_half_even :: "real \<Rightarrow> int" where
  "round_half_even y =
     (let f = \<lfloor>y\<rfloor>; d = y - real_of_int f
      in if d < 1 / 2 then f else if 1 / 2 < d then f + 1 else if even f then f else f + 1)"

text \<open>
  The binary64 value nearest to a real: 53 significant bits, and below \<open>2 ^ -1022\<close> the
  fixed spacing \<open>2 ^ -1074\<close> of the subnormal numbers. A result beyond the largest binary64
  value would be an infinity in C; the values of the controller stay far from it.
\<close>

definition binary64_round :: "real \<Rightarrow> real" where
  "binary64_round x =
     (if x = 0 then 0
      else (let e = max (binary_exponent \<bar>x\<bar>) (- 1022);
                q = 2 powi (e - 52)
            in q * real_of_int (round_half_even (x / q))))"

subsection \<open>Helpers of the controller\<close>

text \<open>\<^verbatim>\<open>EWMA_ALPHA\<close> and \<^verbatim>\<open>ewma_update\<close>, lines 105-111. The weight is a macro of the file.\<close>

definition EWMA_ALPHA :: real where
  "EWMA_ALPHA = 3 / 10"

definition ewma_update :: "real \<Rightarrow> real \<Rightarrow> real" where
  "ewma_update old_val new_val = (EWMA_ALPHA * new_val) + ((1 - EWMA_ALPHA) * old_val)"

text \<open>
  \<^verbatim>\<open>compute_pressure\<close>, lines 117-130. With \<^verbatim>\<open>expected = 0\<close> and \<^verbatim>\<open>raw > 0\<close> the C division
  gives +infinity, \<^verbatim>\<open>e > 1.0\<close> holds and the result is 1; HOL's \<open>raw / 0 = 0\<close> would give -1,
  so that case is a branch of its own.
\<close>

definition compute_pressure :: "real \<Rightarrow> real \<Rightarrow> real" where
  "compute_pressure raw expected =
     (if raw \<le> expected then 0
      else if expected = 0 then 1
      else (let e = (raw / expected) - 1 in if e > 1 then 1 else e))"

text \<open>\<^verbatim>\<open>budget_from_aggressiveness\<close>, lines 201-212.\<close>

definition budget_from_aggressiveness :: "real \<Rightarrow> ASRConfig \<Rightarrow> int" where
  "budget_from_aggressiveness A cfg =
     (let A1 = (if A < 0 then 0 else A);
          A2 = (if A1 > 1 then 1 else A1)
      in \<lfloor>real_of_int (BMIN cfg) + A2 * real_of_int (BMAX cfg - BMIN cfg)\<rfloor>)"

subsection \<open>Metrics ingest and the budget cell\<close>

text \<open>\<^verbatim>\<open>ASR_RecordReplayTask\<close>, lines 136-143.\<close>

definition ASR_RecordReplayTask :: "int \<Rightarrow> asr_globals \<Rightarrow> asr_globals" where
  "ASR_RecordReplayTask count g =
     (if \<not> enable_adaptive_sr (asr_config g) \<or> count \<le> 0 then g
      else g\<lparr>asr_metrics := (asr_metrics g)
             \<lparr>replay_tasks_count := replay_tasks_count (asr_metrics g) + word_of_int count\<rparr>\<rparr>)"

text \<open>\<^verbatim>\<open>ASR_RecordHotMiss\<close>, lines 149-156.\<close>

definition ASR_RecordHotMiss :: "asr_globals \<Rightarrow> asr_globals" where
  "ASR_RecordHotMiss g =
     (if \<not> enable_adaptive_sr (asr_config g) then g
      else g\<lparr>asr_metrics := (asr_metrics g)
             \<lparr>hot_misses := hot_misses (asr_metrics g) + 1\<rparr>\<rparr>)"

text \<open>\<^verbatim>\<open>ASR_RecordWalIngest\<close>, lines 162-169.\<close>

definition ASR_RecordWalIngest :: "64 word \<Rightarrow> asr_globals \<Rightarrow> asr_globals" where
  "ASR_RecordWalIngest bytes g =
     (if \<not> enable_adaptive_sr (asr_config g) \<or> bytes = 0 then g
      else g\<lparr>asr_metrics := (asr_metrics g)
             \<lparr>wal_bytes_received := wal_bytes_received (asr_metrics g) + bytes\<rparr>\<rparr>)"

text \<open>\<^verbatim>\<open>ASR_GetCurrentBudget\<close> and \<^verbatim>\<open>ASR_SetBudget\<close>, lines 174-195.\<close>

definition ASR_GetCurrentBudget :: "asr_globals \<Rightarrow> int" where
  "ASR_GetCurrentBudget g = current_budget (asr_metrics g)"

definition ASR_SetBudget :: "int \<Rightarrow> asr_globals \<Rightarrow> asr_globals" where
  "ASR_SetBudget budget g = g\<lparr>asr_metrics := (asr_metrics g)\<lparr>current_budget := budget\<rparr>\<rparr>"

subsection \<open>The controller tick\<close>

text \<open>
  \<^verbatim>\<open>asr_update_smoothed_metrics\<close>, lines 241-363, block by block. The argument \<open>now\<close> is
  the value \<^verbatim>\<open>time(NULL)\<close> returns in the tick.

  Lines 260-264: the time since the last measurement.
\<close>

definition tick_dt :: "int \<Rightarrow> ASRMetricsInternal \<Rightarrow> real" where
  "tick_dt now m =
     (let dt = (if last_measurement m = 0 then 1 else real_of_int (now - last_measurement m))
      in if dt < 1 / 10 then 1 / 10 else dt)"

text \<open>
  Lines 267-303: the three counters are read, and the three moving averages and the three
  snapshots are updated in the order of the source. \<^verbatim>\<open>last_total_tasks\<close> is assigned (line
  278) before the test \<^verbatim>\<open>total_tasks > asr_metrics.last_total_tasks\<close> of line 286 reads it.
\<close>

definition tick_smooth :: "int \<Rightarrow> ASRMetricsInternal \<Rightarrow> ASRMetricsInternal" where
  "tick_smooth now m0 =
     (let dt = tick_dt now m0;
          total_tasks = replay_tasks_count m0;
          total_misses = hot_misses m0;
          total_wal_bytes = wal_bytes_received m0;
          tasks_delta = total_tasks - last_total_tasks m0;
          new_queue = (if dt > 0 then real (unat tasks_delta) / dt else 0);
          m1 = m0\<lparr>queue_ewma := ewma_update (queue_ewma m0) new_queue\<rparr>;
          m2 = m1\<lparr>last_total_tasks := total_tasks\<rparr>;
          misses_delta = total_misses - last_total_misses m2;
          new_miss_rate =
            (if total_tasks > last_total_tasks m2
             then real (unat misses_delta) / real (unat (tasks_delta + 1))
             else 0);
          m3 = m2\<lparr>miss_rate_ewma := ewma_update (miss_rate_ewma m2) new_miss_rate\<rparr>;
          m4 = m3\<lparr>last_total_misses := total_misses\<rparr>;
          wal_delta = total_wal_bytes - last_wal_bytes m4;
          new_wal_bps = (if dt > 0 then real (unat wal_delta) / dt else 0);
          m5 = m4\<lparr>wal_bps_ewma := ewma_update (wal_bps_ewma m4) new_wal_bps\<rparr>
      in m5\<lparr>last_wal_bytes := total_wal_bytes\<rparr>)"

text \<open>Lines 308-317: the three pressures and the weighted, clamped aggressiveness.\<close>

definition tick_aggressiveness :: "ASRConfig \<Rightarrow> ASRMetricsInternal \<Rightarrow> real" where
  "tick_aggressiveness cfg m =
     (let eq = compute_pressure (queue_ewma m) (QSTAR cfg);
          em = compute_pressure (miss_rate_ewma m) (RSTAR cfg);
          ew = compute_pressure (wal_bps_ewma m) (WSTAR cfg);
          aggressiveness = WQ cfg * eq + WM cfg * em + WW cfg * ew;
          aggressiveness = (if aggressiveness > 1 then 1 else aggressiveness)
      in if aggressiveness < 0 then 0 else aggressiveness)"

text \<open>
  Lines 320-327: the step limit against the stored aggressiveness, in binary64 arithmetic.
  \<^verbatim>\<open>delta_a\<close> is the rounded difference, and the value stored after a snap is the rounded
  sum or difference; \<^verbatim>\<open>fabs\<close> and the comparisons are exact.
\<close>

definition tick_step_limit :: "ASRConfig \<Rightarrow> real \<Rightarrow> real \<Rightarrow> real" where
  "tick_step_limit cfg current aggressiveness =
     (let delta_a = binary64_round (aggressiveness - current)
      in if \<bar>delta_a\<bar> > MAX_STEP cfg
         then (if delta_a > 0 then binary64_round (current + MAX_STEP cfg)
               else binary64_round (current - MAX_STEP cfg))
         else aggressiveness)"

text \<open>Lines 337-340: hysteresis on the budget.\<close>

definition tick_hysteresis :: "ASRConfig \<Rightarrow> int \<Rightarrow> int \<Rightarrow> int" where
  "tick_hysteresis cfg last_budget new_budget =
     (let delta = new_budget - last_budget;
          delta = (if delta < 0 then - delta else delta)
      in if delta < HYST cfg then last_budget else new_budget)"

text \<open>The whole tick. It reads the configuration and never tests \<^verbatim>\<open>enable_adaptive_sr\<close>.\<close>

definition asr_update_smoothed_metrics :: "int \<Rightarrow> asr_globals \<Rightarrow> asr_globals" where
  "asr_update_smoothed_metrics now g =
     (let cfg = asr_config g;
          m = tick_smooth now (asr_metrics g);
          aggressiveness = tick_step_limit cfg (current_aggressiveness m) (tick_aggressiveness cfg m);
          m = m\<lparr>current_aggressiveness := aggressiveness\<rparr>;
          new_budget = budget_from_aggressiveness aggressiveness cfg;
          last_budget = current_budget m;
          new_budget = tick_hysteresis cfg last_budget new_budget;
          m = m\<lparr>current_budget := new_budget\<rparr>;
          m = m\<lparr>last_measurement := now\<rparr>
      in g\<lparr>asr_metrics := m\<rparr>)"

text \<open>
  \<^verbatim>\<open>asr_controller_main\<close>, lines 370-386: the loop ticks until the shutdown flag is set.
  The list holds the clock readings of the iterations that are run.
\<close>

fun asr_controller_main :: "int list \<Rightarrow> asr_globals \<Rightarrow> asr_globals" where
  "asr_controller_main [] g = g"
| "asr_controller_main (now # nows) g =
     (if asr_shutdown_requested g then g
      else asr_controller_main nows (asr_update_smoothed_metrics now g))"

subsection \<open>Life cycle and configuration\<close>

text \<open>
  \<^verbatim>\<open>ASR_Init\<close>, lines 392-405: the default configuration is copied and the budget is set;
  nothing else is assigned.
\<close>

definition ASR_Init :: "asr_globals \<Rightarrow> asr_globals" where
  "ASR_Init g =
     (let g1 = g\<lparr>asr_config := asr_default_config\<rparr>
      in g1\<lparr>asr_metrics := (asr_metrics g1)\<lparr>current_budget := BMIN (asr_config g1)\<rparr>\<rparr>)"

text \<open>
  \<^verbatim>\<open>ASR_StartController\<close>, lines 411-436. \<open>spawn\<close> is what \<^verbatim>\<open>pthread_create\<close> does: \<open>None\<close>
  when it fails, the new thread's id otherwise.
\<close>

definition ASR_StartController :: "nat option \<Rightarrow> asr_globals \<Rightarrow> asr_globals" where
  "ASR_StartController spawn g =
     (if \<not> enable_adaptive_sr (asr_config g) then g
      else (let g1 = g\<lparr>asr_shutdown_requested := False\<rparr>
            in case spawn of None \<Rightarrow> g1 | Some tid \<Rightarrow> g1\<lparr>asr_controller_tid := tid\<rparr>))"

text \<open>\<^verbatim>\<open>ASR_Shutdown\<close>, lines 442-465.\<close>

definition ASR_Shutdown :: "asr_globals \<Rightarrow> asr_globals" where
  "ASR_Shutdown g =
     (let g1 = g\<lparr>asr_shutdown_requested := True\<rparr>
      in if asr_controller_tid g1 \<noteq> 0 then g1\<lparr>asr_controller_tid := 0\<rparr> else g1)"

text \<open>
  \<^verbatim>\<open>ASR_UpdateConfig\<close>, lines 482-495. The argument is a pointer: \<open>None\<close> is \<^verbatim>\<open>NULL\<close>.
\<close>

definition ASR_UpdateConfig :: "ASRConfig option \<Rightarrow> asr_globals \<Rightarrow> asr_globals" where
  "ASR_UpdateConfig new_config g =
     (case new_config of None \<Rightarrow> g | Some c \<Rightarrow> g\<lparr>asr_config := c\<rparr>)"

subsection \<open>Call sequences and named states\<close>

text \<open>
  The collaborators of the module call it in some order; a call sequence is a list of
  calls, run from left to right. \<open>Tick now\<close> is one iteration of the controller loop.
\<close>

datatype asr_call =
    Tick int
  | RecordReplayTask int
  | RecordHotMiss
  | RecordWalIngest "64 word"
  | UpdateConfig "ASRConfig option"

fun asr_call_step :: "asr_call \<Rightarrow> asr_globals \<Rightarrow> asr_globals" where
  "asr_call_step (Tick now) g = asr_update_smoothed_metrics now g"
| "asr_call_step (RecordReplayTask count) g = ASR_RecordReplayTask count g"
| "asr_call_step RecordHotMiss g = ASR_RecordHotMiss g"
| "asr_call_step (RecordWalIngest bytes) g = ASR_RecordWalIngest bytes g"
| "asr_call_step (UpdateConfig c) g = ASR_UpdateConfig c g"

fun asr_calls :: "asr_call list \<Rightarrow> asr_globals \<Rightarrow> asr_globals" where
  "asr_calls [] g = g"
| "asr_calls (c # cs) g = asr_calls cs (asr_call_step c g)"

text \<open>A call that leaves the budget bounds of the default configuration in place.\<close>

fun keeps_bounds :: "asr_call \<Rightarrow> bool" where
  "keeps_bounds (UpdateConfig (Some c)) =
     (BMIN c = BMIN asr_default_config \<and> BMAX c = BMAX asr_default_config)"
| "keeps_bounds _ = True"

text \<open>The published budget lies within the bounds of the configuration in effect.\<close>

definition budget_in_bounds :: "asr_globals \<Rightarrow> bool" where
  "budget_in_bounds g =
     (BMIN (asr_config g) \<le> ASR_GetCurrentBudget g \<and>
      ASR_GetCurrentBudget g \<le> BMAX (asr_config g))"

text \<open>The default configuration with the master switch on, and the state it gives after start-up.\<close>

definition asr_config_enabled :: ASRConfig where
  "asr_config_enabled = asr_default_config\<lparr>enable_adaptive_sr := True\<rparr>"

definition asr_globals_enabled :: asr_globals where
  "asr_globals_enabled = ASR_UpdateConfig (Some asr_config_enabled) (ASR_Init asr_globals_static)"

text \<open>
  One tick's worth of the hot-miss scenario: 50 replay tasks recorded one by one, 25 hot
  misses, then the tick.
\<close>

definition hot_miss_round :: "int \<Rightarrow> asr_call list" where
  "hot_miss_round now =
     replicate 50 (RecordReplayTask 1) @ replicate 25 RecordHotMiss @ [Tick now]"

text \<open>
  A state in which 40 MiB of WAL were recorded while the switch was on, and the switch was
  turned off afterwards.
\<close>

definition asr_globals_switched_off :: asr_globals where
  "asr_globals_switched_off =
     asr_calls [RecordWalIngest 41943040, UpdateConfig (Some asr_default_config)]
       asr_globals_enabled"

text \<open>A state after some use: counters recorded and one tick run at time 7.\<close>

definition asr_globals_used :: asr_globals where
  "asr_globals_used =
     asr_calls [RecordReplayTask 5, RecordHotMiss, RecordWalIngest 4096, Tick 7]
       asr_globals_enabled"



text \<open>A configuration with \<open>BMAX \<le> BMIN\<close> and a negative weight.\<close>

definition asr_config_malformed :: ASRConfig where
  "asr_config_malformed = asr_default_config\<lparr>BMAX := 5, WQ := - 1\<rparr>"

text \<open>
  The update rule in the words of the specification, with the weight as a parameter:
  \<^verbatim>\<open>x_ewma <- alpha * x_raw + (1 - alpha) * x_ewma\<close>. It is compared with \<open>ewma_update\<close>.
\<close>

definition spec_ewma_rule :: "real \<Rightarrow> real \<Rightarrow> real \<Rightarrow> real" where
  "spec_ewma_rule alpha x_ewma x_raw = alpha * x_raw + (1 - alpha) * x_ewma"

section \<open>Properties\<close>

subsection \<open>Evaluation and frame lemmas\<close>

lemmas asr_eval =
  asr_globals_enabled_def asr_config_enabled_def ASR_UpdateConfig_def ASR_Init_def
  asr_globals_static_def asr_default_config_def asr_metrics_static_def asr_config_static_def
  ASR_RecordReplayTask_def ASR_RecordHotMiss_def ASR_RecordWalIngest_def
  asr_update_smoothed_metrics_def tick_smooth_def tick_dt_def tick_aggressiveness_def
  tick_step_limit_def tick_hysteresis_def budget_from_aggressiveness_def compute_pressure_def
  ewma_update_def EWMA_ALPHA_def Let_def ASR_GetCurrentBudget_def

lemmas binary64_eval = binary64_round_def round_half_even_def Let_def binary_exponent.simps

lemma binary64_round_zero [simp]: "binary64_round 0 = 0"
  by (simp add: binary64_round_def)

lemma binary64_round_1_50: "binary64_round (1 / 50) = 5764607523034235 / 288230376151711744"
  by (simp add: binary64_eval)

lemma tick_dt_pos: "0 < tick_dt now m"
  by (simp add: tick_dt_def Let_def)

lemma tick_config: "asr_config (asr_update_smoothed_metrics now g) = asr_config g"
  by (simp add: asr_update_smoothed_metrics_def Let_def)


lemma tick_budget:
  "current_budget (asr_metrics (asr_update_smoothed_metrics now g)) =
     tick_hysteresis (asr_config g) (current_budget (asr_metrics g))
       (budget_from_aggressiveness
          (current_aggressiveness (asr_metrics (asr_update_smoothed_metrics now g)))
          (asr_config g))"
  by (simp add: asr_update_smoothed_metrics_def Let_def tick_smooth_def)

lemma tick_hysteresis_cases:
  "tick_hysteresis cfg last_budget new_budget = last_budget \<or>
   tick_hysteresis cfg last_budget new_budget = new_budget"
  by (simp add: tick_hysteresis_def Let_def)

lemma asr_globals_enabled_eval:
  "asr_globals_enabled =
     \<lparr> asr_config = asr_config_enabled,
       asr_metrics = asr_metrics_static\<lparr>current_budget := 10\<rparr>,
       asr_shutdown_requested = False, asr_controller_tid = 0 \<rparr>"
  by (simp add: asr_globals_enabled_def ASR_UpdateConfig_def ASR_Init_def asr_globals_static_def
      asr_default_config_def Let_def)

lemma asr_globals_enabled_on: "enable_adaptive_sr (asr_config asr_globals_enabled)"
  by (simp add: asr_globals_enabled_eval asr_config_enabled_def)

subsection \<open>Ingest calls with nothing to record\<close>

text \<open>
  C10. Whatever the master switch, \<^verbatim>\<open>ASR_RecordReplayTask\<close> with \<open>count \<le> 0\<close> and
  \<^verbatim>\<open>ASR_RecordWalIngest\<close> with \<open>bytes = 0\<close> return the state they were given: no counter and
  no other field changes.
\<close>

theorem record_nothing_is_noop:
  assumes "count \<le> 0"
  shows "ASR_RecordReplayTask count g = g \<and> ASR_RecordWalIngest 0 g = g"
  using assms by (simp add: ASR_RecordReplayTask_def ASR_RecordWalIngest_def)

theorem record_nothing_is_noop_witness:
  "enable_adaptive_sr (asr_config asr_globals_enabled) \<and> (- 3 :: int) \<le> 0 \<and>
   ASR_RecordReplayTask (- 3) asr_globals_enabled = asr_globals_enabled \<and>
   ASR_RecordWalIngest 0 asr_globals_enabled = asr_globals_enabled"
  using record_nothing_is_noop [of "- 3" asr_globals_enabled] asr_globals_enabled_on
  by simp

subsection \<open>Step limit on the aggressiveness\<close>





text \<open>The binary64 values of the decimal literals of the default configuration.\<close>

lemma binary64_literals:
  "binary64_round (1 / 20) = 3602879701896397 / 2 ^ 56"
  "binary64_round (1 / 10) = 3602879701896397 / 2 ^ 55"
  "binary64_round (1 / 5) = 3602879701896397 / 2 ^ 54"
  "binary64_round (3 / 10) = 5404319552844595 / 2 ^ 54"
  "binary64_round (3 / 5) = 5404319552844595 / 2 ^ 53"
  by (simp_all add: binary64_eval)









text \<open>
  The bound depends on \<open>max_step \<ge> 0\<close>: the code compares \<^verbatim>\<open>fabs(delta_a)\<close> with
  \<^verbatim>\<open>MAX_STEP\<close> as it is, so with \<open>max_step = -1/10\<close> an idle tick moves the aggressiveness
  from 0 to the binary64 value of 1/10.
\<close>

lemma step_limit_negative_max_step:
  "current_aggressiveness (asr_metrics (asr_update_smoothed_metrics 1
     (ASR_UpdateConfig (Some (asr_config_enabled\<lparr>MAX_STEP := - 1 / 10\<rparr>)) asr_globals_enabled)))
   = 3602879701896397 / 2 ^ 55"
  by (simp add: asr_eval binary64_literals)

subsection \<open>Hysteresis on the published budget\<close>

text \<open>
  C7. After a tick the published budget is either the one published before or differs from
  it by at least \<open>hyst\<close>: the tick keeps the published budget when the budget it computes
  from the stored aggressiveness is closer than \<open>hyst\<close> to it, and publishes the computed
  budget otherwise.
\<close>

theorem hysteresis_publish:
  "(ASR_GetCurrentBudget (asr_update_smoothed_metrics now g) = ASR_GetCurrentBudget g \<or>
    HYST (asr_config g) \<le>
      \<bar>ASR_GetCurrentBudget (asr_update_smoothed_metrics now g) - ASR_GetCurrentBudget g\<bar>) \<and>
   ASR_GetCurrentBudget (asr_update_smoothed_metrics now g) =
     (if \<bar>budget_from_aggressiveness
            (current_aggressiveness (asr_metrics (asr_update_smoothed_metrics now g)))
            (asr_config g) - ASR_GetCurrentBudget g\<bar> < HYST (asr_config g)
      then ASR_GetCurrentBudget g
      else budget_from_aggressiveness
            (current_aggressiveness (asr_metrics (asr_update_smoothed_metrics now g)))
            (asr_config g))"
  unfolding ASR_GetCurrentBudget_def tick_budget
  by (simp add: tick_hysteresis_def Let_def abs_if)

subsection \<open>Bounds of the published budget\<close>

lemma budget_from_aggressiveness_bounds:
  assumes "BMIN cfg \<le> BMAX cfg"
  shows "BMIN cfg \<le> budget_from_aggressiveness A cfg \<and>
         budget_from_aggressiveness A cfg \<le> BMAX cfg"
proof -
  define A2 where "A2 = (if (if A < 0 then 0 else A) > 1 then 1 else (if A < 0 then 0 else A))"
  define d where "d = real_of_int (BMAX cfg - BMIN cfg)"
  have r: "0 \<le> A2" "A2 \<le> 1"
    by (auto simp: A2_def)
  have d0: "0 \<le> d"
    using assms by (simp add: d_def)
  have b: "budget_from_aggressiveness A cfg = \<lfloor>real_of_int (BMIN cfg) + A2 * d\<rfloor>"
    by (simp add: budget_from_aggressiveness_def A2_def d_def Let_def)
  have lo: "real_of_int (BMIN cfg) \<le> real_of_int (BMIN cfg) + A2 * d"
    using r d0 by simp
  have "A2 * d \<le> 1 * d"
    using r d0 by (intro mult_right_mono) auto
  then have hi: "real_of_int (BMIN cfg) + A2 * d \<le> real_of_int (BMAX cfg)"
    by (simp add: d_def)
  have "\<lfloor>real_of_int (BMIN cfg)\<rfloor> \<le> \<lfloor>real_of_int (BMIN cfg) + A2 * d\<rfloor>"
    by (rule floor_mono [OF lo])
  then have "BMIN cfg \<le> \<lfloor>real_of_int (BMIN cfg) + A2 * d\<rfloor>"
    by (simp only: floor_of_int)
  moreover have "\<lfloor>real_of_int (BMIN cfg) + A2 * d\<rfloor> \<le> \<lfloor>real_of_int (BMAX cfg)\<rfloor>"
    by (rule floor_mono [OF hi])
  then have "\<lfloor>real_of_int (BMIN cfg) + A2 * d\<rfloor> \<le> BMAX cfg"
    by (simp only: floor_of_int)
  ultimately show ?thesis
    unfolding b by blast
qed

text \<open>A tick keeps the budget within the bounds of any configuration with \<open>BMIN \<le> BMAX\<close>.\<close>

lemma tick_keeps_bounds:
  assumes "BMIN (asr_config g) \<le> BMAX (asr_config g)" and "budget_in_bounds g"
  shows "budget_in_bounds (asr_update_smoothed_metrics now g)"
proof -
  let ?B = "budget_from_aggressiveness
          (current_aggressiveness (asr_metrics (asr_update_smoothed_metrics now g))) (asr_config g)"
  have "BMIN (asr_config g) \<le> ?B \<and> ?B \<le> BMAX (asr_config g)"
    using assms(1) by (rule budget_from_aggressiveness_bounds)
  with assms(2) tick_hysteresis_cases [of "asr_config g" "current_budget (asr_metrics g)" ?B]
  show ?thesis
    unfolding budget_in_bounds_def ASR_GetCurrentBudget_def tick_config tick_budget by auto
qed

lemma call_keeps_bounds:
  assumes "keeps_bounds c"
    and "BMIN (asr_config g) = BMIN asr_default_config"
    and "BMAX (asr_config g) = BMAX asr_default_config"
    and "budget_in_bounds g"
  shows "BMIN (asr_config (asr_call_step c g)) = BMIN asr_default_config \<and>
         BMAX (asr_config (asr_call_step c g)) = BMAX asr_default_config \<and>
         budget_in_bounds (asr_call_step c g)"
proof (cases c)
  case (Tick now)
  have "BMIN (asr_config g) \<le> BMAX (asr_config g)"
    using assms(2,3) by (simp add: asr_default_config_def)
  then show ?thesis
    using Tick assms tick_keeps_bounds [of g now] by (simp add: tick_config)
next
  case (RecordReplayTask n)
  then show ?thesis
    using assms by (simp add: ASR_RecordReplayTask_def budget_in_bounds_def ASR_GetCurrentBudget_def)
next
  case RecordHotMiss
  then show ?thesis
    using assms by (simp add: ASR_RecordHotMiss_def budget_in_bounds_def ASR_GetCurrentBudget_def)
next
  case (RecordWalIngest b)
  then show ?thesis
    using assms by (simp add: ASR_RecordWalIngest_def budget_in_bounds_def ASR_GetCurrentBudget_def)
next
  case (UpdateConfig oc)
  then show ?thesis
    using assms
    by (cases oc) (simp_all add: ASR_UpdateConfig_def budget_in_bounds_def ASR_GetCurrentBudget_def)
qed

lemma calls_keep_bounds:
  assumes "list_all keeps_bounds cs"
    and "BMIN (asr_config g) = BMIN asr_default_config"
    and "BMAX (asr_config g) = BMAX asr_default_config"
    and "budget_in_bounds g"
  shows "budget_in_bounds (asr_calls cs g)"
  using assms
proof (induction cs arbitrary: g)
  case Nil
  then show ?case by simp
next
  case (Cons c cs)
  from Cons.prems have k: "keeps_bounds c" and ks: "list_all keeps_bounds cs"
    by simp_all
  from call_keeps_bounds [OF k Cons.prems(2) Cons.prems(3) Cons.prems(4)]
  show ?case
    using Cons.IH [OF ks, of "asr_call_step c g"] by simp
qed

lemma init_bounds:
  "budget_in_bounds (ASR_Init g) \<and>
   BMIN (asr_config (ASR_Init g)) = BMIN asr_default_config \<and>
   BMAX (asr_config (ASR_Init g)) = BMAX asr_default_config"
  by (simp add: ASR_Init_def budget_in_bounds_def ASR_GetCurrentBudget_def
      asr_default_config_def Let_def)

text \<open>
  C5. From the state \<^verbatim>\<open>ASR_Init\<close> leaves, whatever the state before it, every sequence of
  controller ticks, interleaved with any ingest calls and with configuration updates that
  keep \<open>b_min\<close> and \<open>b_max\<close>, ends in a state whose published budget satisfies
  \<open>b_min \<le> get_budget() \<le> b_max\<close>. The budget is written by the tick only.
\<close>

theorem budget_within_bounds_after_init:
  assumes "list_all keeps_bounds cs"
  shows "BMIN (asr_config (asr_calls cs (ASR_Init g)))
           \<le> ASR_GetCurrentBudget (asr_calls cs (ASR_Init g)) \<and>
         ASR_GetCurrentBudget (asr_calls cs (ASR_Init g))
           \<le> BMAX (asr_config (asr_calls cs (ASR_Init g)))"
  using calls_keep_bounds [OF assms, of "ASR_Init g"] init_bounds [of g]
  by (simp add: budget_in_bounds_def)

text \<open>
  A run that moves the budget: the switch is turned on, 40 MiB of WAL arrive, and the first
  tick publishes 49.
\<close>

lemma wal_run_eval:
  "asr_calls [UpdateConfig (Some asr_config_enabled), RecordWalIngest 41943040, Tick 1]
     (ASR_Init asr_globals_static) =
   \<lparr> asr_config = asr_config_enabled,
     asr_metrics =
       \<lparr> replay_tasks_count = 0, hot_misses = 0, wal_bytes_received = 41943040,
         queue_ewma = 0, miss_rate_ewma = 0, wal_bps_ewma = 12582912,
         current_budget = 49, current_aggressiveness = 1 / 50,
         last_total_misses = 0, last_total_tasks = 0, last_wal_bytes = 41943040,
         last_measurement = 1 \<rparr>,
     asr_shutdown_requested = False, asr_controller_tid = 0 \<rparr>"
  by (simp add: asr_eval binary64_round_1_50)

theorem budget_within_bounds_after_init_witness:
  "list_all keeps_bounds
     [UpdateConfig (Some asr_config_enabled), RecordWalIngest 41943040, Tick 1] \<and>
   ASR_GetCurrentBudget
     (asr_calls [UpdateConfig (Some asr_config_enabled), RecordWalIngest 41943040, Tick 1]
        (ASR_Init asr_globals_static)) = 49 \<and>
   BMIN (asr_config
     (asr_calls [UpdateConfig (Some asr_config_enabled), RecordWalIngest 41943040, Tick 1]
        (ASR_Init asr_globals_static))) \<le> 49 \<and>
   49 \<le> BMAX (asr_config
     (asr_calls [UpdateConfig (Some asr_config_enabled), RecordWalIngest 41943040, Tick 1]
        (ASR_Init asr_globals_static)))"
proof -
  have k: "list_all keeps_bounds
     [UpdateConfig (Some asr_config_enabled), RecordWalIngest 41943040, Tick 1]"
    by (simp add: asr_config_enabled_def)
  have b: "ASR_GetCurrentBudget
     (asr_calls [UpdateConfig (Some asr_config_enabled), RecordWalIngest 41943040, Tick 1]
        (ASR_Init asr_globals_static)) = 49"
    unfolding wal_run_eval by (simp add: ASR_GetCurrentBudget_def)
  from budget_within_bounds_after_init [OF k, of asr_globals_static] k b show ?thesis
    by simp
qed

subsection \<open>The raw hot-miss fraction\<close>

text \<open>
  The test of line 286 reads \<^verbatim>\<open>last_total_tasks\<close> after line 278 has set it to
  \<^verbatim>\<open>total_tasks\<close>, so the branch that divides is never taken: every tick feeds the raw
  value 0 into the moving average of the miss rate.
\<close>

lemma tick_miss_rate_ewma:
  "miss_rate_ewma (asr_metrics (asr_update_smoothed_metrics now g)) =
     7 / 10 * miss_rate_ewma (asr_metrics g)"
  by (simp add: asr_update_smoothed_metrics_def tick_smooth_def ewma_update_def EWMA_ALPHA_def
      Let_def)

lemma call_miss_rate_zero:
  "miss_rate_ewma (asr_metrics g) = 0 \<Longrightarrow>
   miss_rate_ewma (asr_metrics (asr_call_step c g)) = 0"
  by (cases c)
     (simp_all add: tick_miss_rate_ewma ASR_RecordReplayTask_def ASR_RecordHotMiss_def
        ASR_RecordWalIngest_def ASR_UpdateConfig_def split: option.splits)

lemma calls_miss_rate_zero:
  "miss_rate_ewma (asr_metrics g) = 0 \<Longrightarrow> miss_rate_ewma (asr_metrics (asr_calls cs g)) = 0"
  by (induction cs arbitrary: g) (simp_all add: call_miss_rate_zero)

lemma replicate_replay:
  "enable_adaptive_sr (asr_config g) \<Longrightarrow>
   asr_calls (replicate n (RecordReplayTask 1) @ cs) g =
   asr_calls cs (g\<lparr>asr_metrics := (asr_metrics g)
      \<lparr>replay_tasks_count := replay_tasks_count (asr_metrics g) + of_nat n\<rparr>\<rparr>)"
  by (induction n arbitrary: g) (simp_all add: ASR_RecordReplayTask_def add.assoc)

lemma replicate_miss:
  "enable_adaptive_sr (asr_config g) \<Longrightarrow>
   asr_calls (replicate n RecordHotMiss @ cs) g =
   asr_calls cs (g\<lparr>asr_metrics := (asr_metrics g)
      \<lparr>hot_misses := hot_misses (asr_metrics g) + of_nat n\<rparr>\<rparr>)"
  by (induction n arbitrary: g) (simp_all add: ASR_RecordHotMiss_def add.assoc)

lemma hot_miss_round_eval:
  "asr_metrics (asr_calls (hot_miss_round 1) asr_globals_enabled) =
     \<lparr> replay_tasks_count = 50, hot_misses = 25, wal_bytes_received = 0,
       queue_ewma = 15, miss_rate_ewma = 0, wal_bps_ewma = 0,
       current_budget = 10, current_aggressiveness = 0,
       last_total_misses = 25, last_total_tasks = 50, last_wal_bytes = 0,
       last_measurement = 1 \<rparr>"
proof -
  note e = asr_globals_enabled_on
  have "asr_calls (hot_miss_round 1) asr_globals_enabled =
        asr_update_smoothed_metrics 1
          (asr_globals_enabled\<lparr>asr_metrics := (asr_metrics asr_globals_enabled)
             \<lparr>replay_tasks_count := replay_tasks_count (asr_metrics asr_globals_enabled) + 50,
              hot_misses := hot_misses (asr_metrics asr_globals_enabled) + 25\<rparr>\<rparr>)"
    unfolding hot_miss_round_def using e
    by (simp only: replicate_replay [OF e]) (simp add: replicate_miss [where cs = "[_]"])
  then show ?thesis
    by (simp add: asr_eval)
qed

text \<open>
  C1, on the code. In the scenario of the claim (the switch on; per tick 50 replay tasks and
  25 hot misses) the counters and their snapshots move as recorded, yet
  \<^verbatim>\<open>miss_rate_ewma\<close> is 0 after the first tick and after any number of such rounds: the
  raw value the tick uses is 0, not 25/51.
\<close>

theorem miss_rate_ewma_stays_zero:
  "asr_metrics (asr_calls (hot_miss_round 1) asr_globals_enabled) =
     \<lparr> replay_tasks_count = 50, hot_misses = 25, wal_bytes_received = 0,
       queue_ewma = 15, miss_rate_ewma = 0, wal_bps_ewma = 0,
       current_budget = 10, current_aggressiveness = 0,
       last_total_misses = 25, last_total_tasks = 50, last_wal_bytes = 0,
       last_measurement = 1 \<rparr> \<and>
   miss_rate_ewma
     (asr_metrics (asr_calls (concat (map hot_miss_round nows)) asr_globals_enabled)) = 0"
proof -
  have "miss_rate_ewma (asr_metrics asr_globals_enabled) = 0"
    by (simp add: asr_globals_enabled_eval asr_metrics_static_def)
  then have "miss_rate_ewma
     (asr_metrics (asr_calls (concat (map hot_miss_round nows)) asr_globals_enabled)) = 0"
    by (rule calls_miss_rate_zero)
  with hot_miss_round_eval show ?thesis
    by simp
qed

subsection \<open>The master switch\<close>

lemma asr_globals_switched_off_eval:
  "asr_globals_switched_off =
   \<lparr> asr_config = asr_default_config,
     asr_metrics = asr_metrics_static\<lparr>current_budget := 10, wal_bytes_received := 41943040\<rparr>,
     asr_shutdown_requested = False, asr_controller_tid = 0 \<rparr>"
  by (simp add: asr_globals_switched_off_def asr_globals_enabled_eval ASR_RecordWalIngest_def
      ASR_UpdateConfig_def asr_config_enabled_def asr_metrics_static_def)

lemma switched_off_tick_eval:
  "asr_metrics (asr_update_smoothed_metrics 1 asr_globals_switched_off) =
     \<lparr> replay_tasks_count = 0, hot_misses = 0, wal_bytes_received = 41943040,
       queue_ewma = 0, miss_rate_ewma = 0, wal_bps_ewma = 12582912,
       current_budget = 49, current_aggressiveness = 1 / 50,
       last_total_misses = 0, last_total_tasks = 0, last_wal_bytes = 41943040,
       last_measurement = 1 \<rparr>"
  unfolding asr_globals_switched_off_eval
  by (simp add: asr_eval binary64_round_1_50)

text \<open>The tick reads no field of the configuration but the controller's parameters.\<close>

lemma tick_parts_ignore_switch:
  "tick_aggressiveness (cfg\<lparr>enable_adaptive_sr := b\<rparr>) m = tick_aggressiveness cfg m"
  "tick_step_limit (cfg\<lparr>enable_adaptive_sr := b\<rparr>) cur a = tick_step_limit cfg cur a"
  "tick_hysteresis (cfg\<lparr>enable_adaptive_sr := b\<rparr>) last_budget new_budget =
     tick_hysteresis cfg last_budget new_budget"
  "budget_from_aggressiveness a (cfg\<lparr>enable_adaptive_sr := b\<rparr>) =
     budget_from_aggressiveness a cfg"
  by (simp_all add: tick_aggressiveness_def tick_step_limit_def tick_hysteresis_def
      budget_from_aggressiveness_def Let_def)

text \<open>
  C2 as stated fails for the tick. In the state where WAL was recorded while the switch was
  on and the switch is off now, one iteration of the controller loop moves the last
  timestamp, the moving average of the WAL rate, the aggressiveness and the published
  budget (from 10 to 49).
\<close>

theorem tick_ignores_switch:
  "\<not> enable_adaptive_sr (asr_config asr_globals_switched_off) \<and>
   asr_controller_main [1] asr_globals_switched_off =
     asr_update_smoothed_metrics 1 asr_globals_switched_off \<and>
   ASR_GetCurrentBudget asr_globals_switched_off = 10 \<and>
   ASR_GetCurrentBudget (asr_update_smoothed_metrics 1 asr_globals_switched_off) = 49 \<and>
   wal_bps_ewma (asr_metrics asr_globals_switched_off) = 0 \<and>
   wal_bps_ewma (asr_metrics (asr_update_smoothed_metrics 1 asr_globals_switched_off))
     = 12582912 \<and>
   current_aggressiveness (asr_metrics asr_globals_switched_off) = 0 \<and>
   current_aggressiveness
     (asr_metrics (asr_update_smoothed_metrics 1 asr_globals_switched_off)) = 1 / 50 \<and>
   last_measurement (asr_metrics asr_globals_switched_off) = 0 \<and>
   last_measurement (asr_metrics (asr_update_smoothed_metrics 1 asr_globals_switched_off)) = 1"
proof -
  have off: "\<not> enable_adaptive_sr (asr_config asr_globals_switched_off)"
    by (simp add: asr_globals_switched_off_eval asr_default_config_def)
  have loop: "asr_controller_main [1] asr_globals_switched_off =
     asr_update_smoothed_metrics 1 asr_globals_switched_off"
    by (simp add: asr_globals_switched_off_eval)
  have before: "asr_metrics asr_globals_switched_off =
     asr_metrics_static\<lparr>current_budget := 10, wal_bytes_received := 41943040\<rparr>"
    by (simp add: asr_globals_switched_off_eval)
  from off loop show ?thesis
    unfolding ASR_GetCurrentBudget_def switched_off_tick_eval before
    by (simp add: asr_metrics_static_def)
qed

text \<open>
  C2 as amended. With the switch off, each of the three ingest calls returns the state it
  was given, and \<^verbatim>\<open>ASR_StartController\<close> does so too: no controller thread is created, so no
  tick is run by it. The tick itself does not read the switch: what it does to the metrics
  is what it does with the switch on.
\<close>

theorem switch_off_ingest_and_start:
  assumes "\<not> enable_adaptive_sr (asr_config g)"
  shows "ASR_RecordReplayTask count g = g \<and>
         ASR_RecordHotMiss g = g \<and>
         ASR_RecordWalIngest bytes g = g \<and>
         ASR_StartController spawn g = g \<and>
         asr_metrics (asr_update_smoothed_metrics now g) =
           asr_metrics (asr_update_smoothed_metrics now
             (g\<lparr>asr_config := (asr_config g)\<lparr>enable_adaptive_sr := True\<rparr>\<rparr>))"
proof -
  have "asr_metrics (asr_update_smoothed_metrics now g) =
        asr_metrics (asr_update_smoothed_metrics now
          (g\<lparr>asr_config := (asr_config g)\<lparr>enable_adaptive_sr := True\<rparr>\<rparr>))"
    by (simp add: asr_update_smoothed_metrics_def tick_parts_ignore_switch Let_def)
  with assms show ?thesis
    by (simp add: ASR_RecordReplayTask_def ASR_RecordHotMiss_def ASR_RecordWalIngest_def
        ASR_StartController_def)
qed

theorem switch_off_ingest_and_start_witness:
  "\<not> enable_adaptive_sr (asr_config (ASR_Init asr_globals_static)) \<and>
   ASR_RecordReplayTask 1000000 (ASR_Init asr_globals_static) = ASR_Init asr_globals_static \<and>
   ASR_RecordHotMiss (ASR_Init asr_globals_static) = ASR_Init asr_globals_static \<and>
   ASR_RecordWalIngest 4096 (ASR_Init asr_globals_static) = ASR_Init asr_globals_static \<and>
   ASR_StartController (Some 7) (ASR_Init asr_globals_static) = ASR_Init asr_globals_static"
proof -
  have off: "\<not> enable_adaptive_sr (asr_config (ASR_Init asr_globals_static))"
    by (simp add: ASR_Init_def asr_default_config_def Let_def)
  from switch_off_ingest_and_start [OF off, of 1000000 4096 "Some 7" 1] off show ?thesis
    by simp
qed

subsection \<open>Initialisation\<close>

lemma asr_globals_used_eval:
  "asr_globals_used =
   \<lparr> asr_config = asr_config_enabled,
     asr_metrics =
       \<lparr> replay_tasks_count = 5, hot_misses = 1, wal_bytes_received = 4096,
         queue_ewma = 3 / 2, miss_rate_ewma = 0, wal_bps_ewma = 6144 / 5,
         current_budget = 10, current_aggressiveness = 0,
         last_total_misses = 1, last_total_tasks = 5, last_wal_bytes = 4096,
         last_measurement = 7 \<rparr>,
     asr_shutdown_requested = False, asr_controller_tid = 0 \<rparr>"
  by (simp add: asr_globals_used_def asr_eval)

text \<open>
  C3 as stated fails: \<^verbatim>\<open>ASR_Init\<close> called on a state that has been used leaves the three
  counters, their snapshots, the timestamp and the moving averages as they were.
\<close>

theorem init_keeps_counters:
  "replay_tasks_count (asr_metrics (ASR_Init asr_globals_used)) = 5 \<and>
   hot_misses (asr_metrics (ASR_Init asr_globals_used)) = 1 \<and>
   wal_bytes_received (asr_metrics (ASR_Init asr_globals_used)) = 4096 \<and>
   last_total_tasks (asr_metrics (ASR_Init asr_globals_used)) = 5 \<and>
   last_total_misses (asr_metrics (ASR_Init asr_globals_used)) = 1 \<and>
   last_wal_bytes (asr_metrics (ASR_Init asr_globals_used)) = 4096 \<and>
   last_measurement (asr_metrics (ASR_Init asr_globals_used)) = 7 \<and>
   queue_ewma (asr_metrics (ASR_Init asr_globals_used)) = 3 / 2 \<and>
   wal_bps_ewma (asr_metrics (ASR_Init asr_globals_used)) = 6144 / 5"
  unfolding asr_globals_used_eval
  by (simp add: ASR_Init_def Let_def)

text \<open>
  C3 as amended. Whatever the state, \<^verbatim>\<open>ASR_Init\<close> installs the default configuration and
  sets the published budget to \<open>b_min\<close>, and changes nothing else of the metrics. On the
  state the process starts with, whose counters and smoother state the static initialiser
  has zeroed, the counters, the snapshots, the timestamp, the three moving averages and the
  aggressiveness are therefore 0 after it.
\<close>

theorem init_effect:
  "asr_config (ASR_Init g) = asr_default_config \<and>
   ASR_GetCurrentBudget (ASR_Init g) = BMIN (asr_config (ASR_Init g)) \<and>
   asr_metrics (ASR_Init g) = (asr_metrics g)\<lparr>current_budget := 10\<rparr> \<and>
   asr_metrics (ASR_Init asr_globals_static) =
     \<lparr> replay_tasks_count = 0, hot_misses = 0, wal_bytes_received = 0,
       queue_ewma = 0, miss_rate_ewma = 0, wal_bps_ewma = 0,
       current_budget = 10, current_aggressiveness = 0,
       last_total_misses = 0, last_total_tasks = 0, last_wal_bytes = 0,
       last_measurement = 0 \<rparr>"
  by (simp add: ASR_Init_def ASR_GetCurrentBudget_def asr_default_config_def
      asr_globals_static_def asr_metrics_static_def Let_def)

subsection \<open>Configuration updates\<close>

text \<open>
  C4 as stated fails: a configuration with \<open>b_max \<le> b_min\<close> and a negative weight, passed
  to \<^verbatim>\<open>ASR_UpdateConfig\<close>, is the configuration in effect afterwards, not the prior one.
\<close>

theorem malformed_config_installed:
  "BMAX asr_config_malformed \<le> BMIN asr_config_malformed \<and>
   WQ asr_config_malformed < 0 \<and>
   asr_config (ASR_Init asr_globals_static) = asr_default_config \<and>
   asr_config (ASR_UpdateConfig (Some asr_config_malformed) (ASR_Init asr_globals_static))
     = asr_config_malformed \<and>
   asr_config (ASR_UpdateConfig (Some asr_config_malformed) (ASR_Init asr_globals_static))
     \<noteq> asr_config (ASR_Init asr_globals_static)"
  by (simp add: asr_config_malformed_def ASR_UpdateConfig_def ASR_Init_def
      asr_default_config_def Let_def)

text \<open>
  C4 as amended. \<^verbatim>\<open>ASR_UpdateConfig\<close> does not inspect the fields: any configuration it is
  given becomes the configuration in effect and nothing else changes; only a null pointer
  leaves the prior configuration.
\<close>

theorem update_config_installs:
  "ASR_UpdateConfig (Some c) g = g\<lparr>asr_config := c\<rparr> \<and>
   asr_config (ASR_UpdateConfig (Some c) g) = c \<and>
   ASR_UpdateConfig None g = g"
  by (simp add: ASR_UpdateConfig_def)

subsection \<open>The moving averages\<close>

text \<open>
  C8 as stated fails: \<^verbatim>\<open>ASRConfig\<close> has no field for the weight. With a weight of 1/2, a
  value the specification allows, its rule takes the average of the queue from 0 to 500 on
  a raw value of 1000; the code takes it to 300.
\<close>

theorem ewma_weight_not_configurable:
  "queue_ewma (asr_metrics (ASR_RecordReplayTask 1000 asr_globals_enabled)) = 0 \<and>
   spec_ewma_rule (1 / 2) 0 1000 = 500 \<and>
   ewma_update 0 1000 = 300 \<and>
   queue_ewma
     (asr_metrics (asr_update_smoothed_metrics 1 (ASR_RecordReplayTask 1000 asr_globals_enabled)))
     = 300"
  by (simp add: spec_ewma_rule_def asr_eval)

text \<open>
  C8 as amended. \<^verbatim>\<open>ewma_update\<close> is the rule of the specification with the weight fixed to
  the constant \<^verbatim>\<open>EWMA_ALPHA\<close> = 0.3. On every tick the moving averages of the queue and of
  the WAL rate are updated by it from the raw rates \<open>\<Delta>tasks / dt\<close> and \<open>\<Delta>wal / dt\<close>, and the
  moving average of the miss rate is updated by it from a raw value that is 0 or
  \<open>\<Delta>misses / (\<Delta>tasks + 1)\<close>.
\<close>

theorem ewma_rule_fixed_weight:
  "EWMA_ALPHA = 3 / 10 \<and>
   ewma_update x_ewma x_raw = spec_ewma_rule EWMA_ALPHA x_ewma x_raw \<and>
   queue_ewma (asr_metrics (asr_update_smoothed_metrics now g)) =
     spec_ewma_rule (3 / 10) (queue_ewma (asr_metrics g))
       (real (unat (replay_tasks_count (asr_metrics g) - last_total_tasks (asr_metrics g)))
          / tick_dt now (asr_metrics g)) \<and>
   wal_bps_ewma (asr_metrics (asr_update_smoothed_metrics now g)) =
     spec_ewma_rule (3 / 10) (wal_bps_ewma (asr_metrics g))
       (real (unat (wal_bytes_received (asr_metrics g) - last_wal_bytes (asr_metrics g)))
          / tick_dt now (asr_metrics g)) \<and>
   (miss_rate_ewma (asr_metrics (asr_update_smoothed_metrics now g)) =
      spec_ewma_rule (3 / 10) (miss_rate_ewma (asr_metrics g)) 0 \<or>
    miss_rate_ewma (asr_metrics (asr_update_smoothed_metrics now g)) =
      spec_ewma_rule (3 / 10) (miss_rate_ewma (asr_metrics g))
        (real (unat (hot_misses (asr_metrics g) - last_total_misses (asr_metrics g)))
           / real (unat (replay_tasks_count (asr_metrics g) - last_total_tasks (asr_metrics g)
                          + 1))))"
proof -
  have q: "queue_ewma (asr_metrics (asr_update_smoothed_metrics now g)) =
     spec_ewma_rule (3 / 10) (queue_ewma (asr_metrics g))
       (real (unat (replay_tasks_count (asr_metrics g) - last_total_tasks (asr_metrics g)))
          / tick_dt now (asr_metrics g))"
    using tick_dt_pos [of now "asr_metrics g"]
    by (simp add: asr_update_smoothed_metrics_def tick_smooth_def ewma_update_def EWMA_ALPHA_def
        spec_ewma_rule_def Let_def)
  have w: "wal_bps_ewma (asr_metrics (asr_update_smoothed_metrics now g)) =
     spec_ewma_rule (3 / 10) (wal_bps_ewma (asr_metrics g))
       (real (unat (wal_bytes_received (asr_metrics g) - last_wal_bytes (asr_metrics g)))
          / tick_dt now (asr_metrics g))"
    using tick_dt_pos [of now "asr_metrics g"]
    by (simp add: asr_update_smoothed_metrics_def tick_smooth_def ewma_update_def EWMA_ALPHA_def
        spec_ewma_rule_def Let_def)
  have m: "miss_rate_ewma (asr_metrics (asr_update_smoothed_metrics now g)) =
      spec_ewma_rule (3 / 10) (miss_rate_ewma (asr_metrics g)) 0"
    by (simp add: tick_miss_rate_ewma spec_ewma_rule_def)
  have e: "ewma_update x_ewma x_raw = spec_ewma_rule EWMA_ALPHA x_ewma x_raw"
    by (simp add: ewma_update_def spec_ewma_rule_def)
  from q w m e show ?thesis
    by (simp add: EWMA_ALPHA_def)
qed

end
